theory Spec2Isabelle
  imports Main
begin

section \<open>The per-instance event queue (whatsapp.ts, enqueueProcessing and processUnifiedQueue)\<close>

text \<open>
  JavaScript runs one call stack at a time: code between two \<open>await\<close>s is atomic, and the
  only suspension point of \<open>processUnifiedQueue\<close> is \<open>await task()\<close>. An execution of one
  instance is therefore a sequence of events, each handled atomically:
  \<^item> \<open>EnqueueMessage task id\<close> and \<open>EnqueueStatus task id\<close>: a call of one of the two public
    methods, \<open>enqueueMessageProcessing\<close> and \<open>enqueueStatusProcessing\<close>;
  \<^item> \<open>Settled r\<close>: the promise the suspended loop awaits settles (\<open>Resolved\<close>, or
    \<open>Rejected\<close> when the task throws), and the loop's continuation runs.
  Tasks are opaque (\<open>() => Promise<void>\<close>), so the state is polymorphic in them. The fields
  \<open>unifiedQueue\<close> and \<open>processingUnifiedQueue\<close> are the two fields of the class; \<open>awaiting\<close>
  is the task the suspended loop waits for, \<open>loop_type\<close> and \<open>loop_id\<close> are the arguments of
  the call of \<open>processUnifiedQueue\<close> that is running the loop, and \<open>processing_lines\<close> are
  the "Processing ..." lines it printed (without the prefix that names the instance). The
  remaining fields only observe: \<open>started\<close> lists the tasks in the order the loop called
  them, \<open>running\<close> the tasks called and not yet settled, and \<open>loop_rejected\<close> records that
  the promise of \<open>processUnifiedQueue\<close> itself was rejected.
\<close>

datatype settle = Resolved | Rejected

datatype 't event = EnqueueMessage 't string | EnqueueStatus 't string | Settled settle

record 't queue_state =
  unifiedQueue :: "'t list"
  processingUnifiedQueue :: bool
  awaiting :: "'t option"
  loop_type :: string
  loop_id :: string
  processing_lines :: "string list"
  started :: "'t list"
  running :: "'t list"
  loop_rejected :: bool

definition initial_queue :: "'t queue_state" where
  "initial_queue =
     \<lparr>unifiedQueue = [], processingUnifiedQueue = False, awaiting = None,
      loop_type = [], loop_id = [], processing_lines = [],
      started = [], running = [], loop_rejected = False\<rparr>"

text \<open>
  The \<open>while\<close> loop from its test up to the next suspension: on an empty list it leaves the
  loop and clears the flag; otherwise it shifts the head, prints its line, calls the task
  and suspends on it. (A task is a function, hence truthy: the \<open>if (task)\<close> of the source
  always passes.)
\<close>

definition drain :: "'t queue_state \<Rightarrow> 't queue_state" where
  "drain s =
     (case unifiedQueue s of
        [] \<Rightarrow> s\<lparr>processingUnifiedQueue := False\<rparr>
      | task # rest \<Rightarrow>
          s\<lparr>unifiedQueue := rest, awaiting := Some task,
            processing_lines := processing_lines s
              @ [''Processing '' @ loop_type s @ '' '' @ loop_id s @ ''...''],
            started := started s @ [task], running := running s @ [task]\<rparr>)"

definition processUnifiedQueue :: "string \<Rightarrow> string \<Rightarrow> 't queue_state \<Rightarrow> 't queue_state" where
  "processUnifiedQueue type mid s =
     (if processingUnifiedQueue s then s
      else drain (s\<lparr>processingUnifiedQueue := True, loop_type := type, loop_id := mid\<rparr>))"

definition enqueueProcessing :: "'t \<Rightarrow> string \<Rightarrow> string \<Rightarrow> 't queue_state \<Rightarrow> 't queue_state" where
  "enqueueProcessing task type mid s =
     processUnifiedQueue type mid (s\<lparr>unifiedQueue := unifiedQueue s @ [task]\<rparr>)"

definition enqueueMessageProcessing :: "'t \<Rightarrow> string \<Rightarrow> 't queue_state \<Rightarrow> 't queue_state" where
  "enqueueMessageProcessing task mid s = enqueueProcessing task ''message'' mid s"

definition enqueueStatusProcessing :: "'t \<Rightarrow> string \<Rightarrow> 't queue_state \<Rightarrow> 't queue_state" where
  "enqueueStatusProcessing task mid s = enqueueProcessing task ''status'' mid s"

text \<open>
  The continuation of \<open>await task()\<close>. When the promise resolved the loop goes on; when it
  was rejected the \<open>await\<close> throws inside \<open>processUnifiedQueue\<close>, which has no handler:
  the function ends there, without reaching the assignment that clears the flag.
  (A settlement while no task is awaited cannot occur; it changes nothing.)
\<close>

definition resume :: "settle \<Rightarrow> 't queue_state \<Rightarrow> 't queue_state" where
  "resume r s =
     (case awaiting s of
        None \<Rightarrow> s
      | Some task \<Rightarrow>
          (case r of
             Resolved \<Rightarrow> drain (s\<lparr>awaiting := None, running := remove1 task (running s)\<rparr>)
           | Rejected \<Rightarrow>
               s\<lparr>awaiting := None, running := remove1 task (running s),
                 loop_rejected := True\<rparr>))"

fun step :: "'t queue_state \<Rightarrow> 't event \<Rightarrow> 't queue_state" where
  "step s (EnqueueMessage task mid) = enqueueMessageProcessing task mid s"
| "step s (EnqueueStatus task mid) = enqueueStatusProcessing task mid s"
| "step s (Settled r) = resume r s"

definition run :: "'t event list \<Rightarrow> 't queue_state \<Rightarrow> 't queue_state" where
  "run es s = foldl step s es"

text \<open>The tasks handed to the two public methods, in the order of the calls.\<close>

fun enqueued :: "'t event list \<Rightarrow> 't list" where
  "enqueued [] = []"
| "enqueued (EnqueueMessage task mid # es) = task # enqueued es"
| "enqueued (EnqueueStatus task mid # es) = task # enqueued es"
| "enqueued (Settled r # es) = enqueued es"

text \<open>
  What holds between two events: the tasks called and not settled are exactly the one the
  loop awaits, a loop that awaits has the flag set, and a cleared flag means an empty list.
\<close>

definition queue_inv :: "'t queue_state \<Rightarrow> bool" where
  "queue_inv s \<longleftrightarrow>
     running s = (case awaiting s of None \<Rightarrow> [] | Some task \<Rightarrow> [task]) \<and>
     (awaiting s \<noteq> None \<longrightarrow> processingUnifiedQueue s) \<and>
     (\<not> processingUnifiedQueue s \<longrightarrow> unifiedQueue s = [])"

text \<open>A loop that ended on a rejection: the flag is set and no task is awaited.\<close>

definition stalled :: "'t queue_state \<Rightarrow> bool" where
  "stalled s \<longleftrightarrow> processingUnifiedQueue s \<and> awaiting s = None"

text \<open>
  \<open>enqueueProcessing\<close> does not keep the promise that \<open>processUnifiedQueue\<close> returns, so a
  rejection of the loop is an unhandled rejection. What becomes of it is decided outside
  the sources: \<open>keeps_running\<close> tells whether the process goes on (a handler for unhandled
  rejections is installed, or the runtime only warns); otherwise the process ends at the
  rejection and handles no later event. The loop is rejected at most once, at the step
  that sets \<open>loop_rejected\<close>.
\<close>

datatype 't process = Running "'t queue_state" | Exited "'t queue_state"

fun queue_of :: "'t process \<Rightarrow> 't queue_state" where
  "queue_of (Running s) = s"
| "queue_of (Exited s) = s"

fun exited :: "'t process \<Rightarrow> bool" where
  "exited (Running s) = False"
| "exited (Exited s) = True"

fun process_step :: "bool \<Rightarrow> 't process \<Rightarrow> 't event \<Rightarrow> 't process" where
  "process_step keeps_running (Exited s) e = Exited s"
| "process_step keeps_running (Running s) e =
     (if loop_rejected (step s e) \<and> \<not> loop_rejected s \<and> \<not> keeps_running
      then Exited (step s e)
      else Running (step s e))"

definition process_run :: "bool \<Rightarrow> 't event list \<Rightarrow> 't process \<Rightarrow> 't process" where
  "process_run keeps_running es p = foldl (process_step keeps_running) p es"

section \<open>Acknowledgement codes (whatsapp.ts, onReceiveMessageStatus, line 243)\<close>

text \<open>
  \<open>["PENDING", "SENT", "RECEIVED", "READ", "PLAYED"][message.ack] || "ERROR"\<close>.
  Indexing a JavaScript array outside its range gives \<open>undefined\<close> (here \<open>None\<close>) and does not
  throw; \<open>a || b\<close> is \<open>b\<close> when \<open>a\<close> is \<open>undefined\<close> or the empty string.
\<close>

definition js_index :: "'a list \<Rightarrow> int \<Rightarrow> 'a option" where
  "js_index xs i = (if 0 \<le> i \<and> i < int (length xs) then Some (xs ! nat i) else None)"

fun js_or :: "string option \<Rightarrow> string \<Rightarrow> string" where
  "js_or None d = d"
| "js_or (Some s) d = (if s = [] then d else s)"

definition status_of_ack :: "int \<Rightarrow> string" where
  "status_of_ack ack =
     js_or (js_index [''PENDING'', ''SENT'', ''RECEIVED'', ''READ'', ''PLAYED''] ack) ''ERROR''"

section \<open>Values of the JavaScript side\<close>

text \<open>
  A value that may be \<open>null\<close> or \<open>undefined\<close> is an \<open>option\<close>. \<open>x || null\<close> is \<open>null\<close> for
  every falsy \<open>x\<close>: besides \<open>null\<close> and \<open>undefined\<close>, the empty string and the number 0.
  A \<open>Date\<close> is its number of milliseconds; \<open>decimal\<close> renders a number the way a template
  string does.
\<close>

type_synonym date = nat

fun or_null :: "string option \<Rightarrow> string option" where
  "or_null None = None"
| "or_null (Some s) = (if s = [] then None else Some s)"

fun num_or_null :: "int option \<Rightarrow> int option" where
  "num_or_null None = None"
| "num_or_null (Some n) = (if n = 0 then None else Some n)"

definition digit :: "nat \<Rightarrow> char" where
  "digit d = ''0123456789'' ! d"

fun decimal :: "nat \<Rightarrow> string" where
  "decimal n = (if n < 10 then [digit n] else decimal (n div 10) @ [digit (n mod 10)])"

declare decimal.simps [simp del]

text \<open>
  What a \<open>catch\<close> receives. \<open>Nullish\<close> is a rejection whose value is \<open>null\<close> or \<open>undefined\<close>:
  reading a property of it throws.
\<close>

datatype exn = Error string | AxiosError | DbError | FsError | TypeError | Nullish

section \<open>The world an instance acts on\<close>

text \<open>
  \<open>ParsedMessage\<close> is declared in types.ts, which is not among the sources; its fields are
  the ones \<open>saveMessage\<close> reads. \<open>message_row\<close> is a row of table \<open>messages\<close>, with the columns
  of the INSERT statement of \<open>saveMessage\<close>.
\<close>

record ARQUIVO =
  arq_TIPO :: "string option"
  NOME_ORIGINAL :: "string option"
  NOME_ARQUIVO :: "string option"
  ARMAZENAMENTO :: "string option"

record ParsedMessage =
  pm_ID :: string
  pm_MENSAGEM :: "string option"
  pm_ID_REFERENCIA :: "string option"
  pm_TIPO :: "string option"
  pm_TIMESTAMP :: "int option"
  pm_FROM_ME :: bool
  pm_DATA_HORA :: "date option"
  pm_STATUS :: "string option"
  pm_ARQUIVO :: "ARQUIVO option"

record message_row =
  ID :: string
  MENSAGEM :: "string option"
  ID_REFERENCIA :: "string option"
  TIPO :: "string option"
  TIMESTAMP :: "int option"
  FROM_ME :: bool
  DATA_HORA :: "date option"
  STATUS :: "string option"
  ARQUIVO_TIPO :: "string option"
  ARQUIVO_NOME_ORIGINAL :: "string option"
  ARQUIVO_NOME :: "string option"
  ARQUIVO_ARMAZENAMENTO :: "string option"
  SYNC_MESSAGE :: bool
  SYNC_STATUS :: bool
  INSTANCE :: string
  FROM :: string

datatype http_method = POST | PUT

datatype body = ParsedBody ParsedMessage | RowBody message_row | StatusBody "string option"

record request =
  req_method :: http_method
  url :: string
  body :: body

text \<open>
  The state outside the instance: the rows of table \<open>messages\<close>; the identifiers of the rows
  of table \<open>w_mensagens\<close> (\<open>onReceiveMessage\<close> only reads whether a row exists); the HTTP
  requests issued through axios, in order; the paths of the log files written; the lines
  printed on the console (\<open>logWithDate\<close> is in utils.ts, not among the sources: the line is
  its first argument, without the date and without the error object printed after it).
\<close>

record world =
  messages :: "message_row list"
  w_mensagens :: "string list"
  requests :: "request list"
  files :: "string list"
  console :: "string list"

record wa_message =
  id_serialized :: string
  msg_type :: string
  isStatus :: bool
  ack :: int

record chat =
  isGroup :: bool
  chat_user :: string

text \<open>
  What the environment answers during one operation. \<open>http_ok\<close>: the backend answers the
  request with a 2xx status (otherwise the axios promise is rejected). \<open>db_ok\<close>: obtaining
  the connection and executing the statement succeed. \<open>LOGS_PATH\<close> is the environment
  variable, \<open>fs_ok\<close> tells whether \<open>mkdirp\<close> and \<open>writeFile\<close> succeed, \<open>stringify_ok\<close> whether
  \<open>JSON.stringify\<close> returns on the data of the log (it throws on a circular object),
  \<open>path_join\<close> is \<open>path.join\<close> of the runtime's library, and \<open>now\<close> is the clock.
  \<open>getChat\<close> is the method of the message; \<open>isMessageFromNow\<close> and \<open>messageParser\<close> (utils.ts)
  and \<open>runAutoMessage\<close> (build-automatic-messages) are not among the sources and are taken
  as parameters: \<open>runAutoMessage\<close> gives the exception it throws, if any, and what else it
  does is outside this model.
\<close>

datatype db_call = Insert string | Update string | SelectSaved string | SelectUnsynced

record env =
  http_ok :: "request \<Rightarrow> bool"
  db_ok :: "db_call \<Rightarrow> bool"
  LOGS_PATH :: "string option"
  fs_ok :: bool
  stringify_ok :: bool
  path_join :: "string list \<Rightarrow> string"
  now :: nat
  getChat :: "wa_message \<Rightarrow> exn + chat"
  isMessageFromNow :: "wa_message \<Rightarrow> bool"
  messageParser :: "wa_message \<Rightarrow> exn + ParsedMessage option"
  runAutoMessage :: "nat \<Rightarrow> wa_message \<Rightarrow> string \<Rightarrow> exn option"

record WhatsappInstance =
  requestURL :: string
  clientName :: string
  whatsappNumber :: string
  blockedNumbers :: "string list"
  autoMessages :: "nat list"

definition logWithDate :: "string \<Rightarrow> world \<Rightarrow> world" where
  "logWithDate line w = w\<lparr>console := console w @ [line]\<rparr>"

definition tag :: "WhatsappInstance \<Rightarrow> string" where
  "tag this = ''['' @ clientName this @ '' - '' @ whatsappNumber this @ ''] ''"

definition axios :: "request \<Rightarrow> world \<Rightarrow> world" where
  "axios req w = w\<lparr>requests := requests w @ [req]\<rparr>"

section \<open>The Log class (log.ts)\<close>

text \<open>
  The data of a log (\<open>T\<close>) are kept as the list of the keys of the data object. \<open>finishedAt\<close>
  is \<open>undefined\<close> (\<open>None\<close>) until \<open>finish\<close> is called.
\<close>

record LogContext =
  ctx_clientName :: string
  ctx_type :: string
  ctx_identifier :: string

record LogEvent =
  occurredAt :: date
  ev_context :: string
  ev_message :: string

record Log =
  log_context :: LogContext
  startedAt :: date
  lines :: "LogEvent list"
  finishedAt :: "date option"
  data :: "string list"
  error :: "exn option"
  errorFilePath :: "string option"

definition new_Log :: "env \<Rightarrow> string \<Rightarrow> string \<Rightarrow> string \<Rightarrow> string list \<Rightarrow> Log" where
  "new_Log e name type identifier d =
     \<lparr>log_context = \<lparr>ctx_clientName = name, ctx_type = type, ctx_identifier = identifier\<rparr>,
      startedAt = now e, lines = [], finishedAt = None, data = d, error = None,
      errorFilePath = None\<rparr>"

definition setData :: "(string list \<Rightarrow> string list) \<Rightarrow> Log \<Rightarrow> Log" where
  "setData cb l = l\<lparr>data := cb (data l)\<rparr>"

definition setError :: "exn \<Rightarrow> Log \<Rightarrow> Log" where
  "setError err l = l\<lparr>error := Some err\<rparr>"

definition event :: "env \<Rightarrow> string \<Rightarrow> string \<Rightarrow> Log \<Rightarrow> Log" where
  "event e c m l =
     l\<lparr>lines := lines l @ [\<lparr>occurredAt = now e, ev_context = c, ev_message = m\<rparr>]\<rparr>"

definition finish :: "env \<Rightarrow> Log \<Rightarrow> Log" where
  "finish e l = l\<lparr>finishedAt := Some (now e)\<rparr>"

text \<open>
  \<open>save\<close>: the whole body is inside \<open>try\<close>, and the handler prints one line and returns, so
  nothing is thrown to the caller. The body throws when the log is not finished; when
  \<open>LOGS_PATH\<close> is not set (\<open>path.join\<close> refuses \<open>undefined\<close>); and, after \<open>errorFilePath\<close> was
  assigned, when \<open>mkdirp\<close> fails, when \<open>JSON.stringify\<close> throws, or when \<open>writeFile\<close> fails:
  the file is written only when none of the three does.
\<close>

definition save :: "env \<Rightarrow> Log \<Rightarrow> world \<Rightarrow> Log \<times> world" where
  "save e l w =
     (case finishedAt l of
        None \<Rightarrow> (l, logWithDate ''log save error:'' w)
      | Some t \<Rightarrow>
          (case LOGS_PATH e of
             None \<Rightarrow> (l, logWithDate ''log save error:'' w)
           | Some root \<Rightarrow>
               (let fileName = decimal (now e) @ ''.json'';
                    logPath = path_join e [root, ctx_clientName (log_context l),
                                ctx_type (log_context l), ctx_identifier (log_context l)];
                    l' = l\<lparr>errorFilePath := Some (path_join e [logPath, fileName])\<rparr>
                in if fs_ok e \<and> stringify_ok e
                   then (l', w\<lparr>files := files w @ [path_join e [logPath, fileName]]\<rparr>)
                   else (l', logWithDate ''log save error:'' w))))"

section \<open>The statements on table messages (whatsapp.ts, saveMessage, updateMessage, syncMessagesWithServer)\<close>

text \<open>
  Modelled from the spec: the declaration of table \<open>messages\<close> is not among the sources.
  The spec gives one row per message with uniqueness on the identifier, so \<open>ID\<close> is the
  unique key that \<open>ON DUPLICATE KEY UPDATE\<close> refers to, and a table is a list of rows whose
  identifiers are distinct (\<open>unique_ID\<close>). The two sync columns are booleans (0 and 1).

  \<open>INSERT ... ON DUPLICATE KEY UPDATE\<close>: when a row has the key of the new row, the columns
  listed after \<open>UPDATE\<close> take the new values and the others (\<open>ID\<close>, \<open>ID_REFERENCIA\<close>,
  \<open>INSTANCE\<close>, \<open>FROM\<close>) stay; otherwise the new row is added.
\<close>

definition unique_ID :: "message_row list \<Rightarrow> bool" where
  "unique_ID rows = distinct (map ID rows)"

definition on_duplicate_key_update :: "message_row \<Rightarrow> message_row \<Rightarrow> message_row" where
  "on_duplicate_key_update new r =
     r\<lparr>MENSAGEM := MENSAGEM new, TIPO := TIPO new, TIMESTAMP := TIMESTAMP new,
       FROM_ME := FROM_ME new, DATA_HORA := DATA_HORA new, STATUS := STATUS new,
       ARQUIVO_TIPO := ARQUIVO_TIPO new, ARQUIVO_NOME_ORIGINAL := ARQUIVO_NOME_ORIGINAL new,
       ARQUIVO_NOME := ARQUIVO_NOME new, ARQUIVO_ARMAZENAMENTO := ARQUIVO_ARMAZENAMENTO new,
       SYNC_MESSAGE := SYNC_MESSAGE new, SYNC_STATUS := SYNC_STATUS new\<rparr>"

definition insert_message :: "message_row \<Rightarrow> message_row list \<Rightarrow> message_row list" where
  "insert_message new rows =
     (if ID new \<in> set (map ID rows)
      then map (\<lambda>r. if ID r = ID new then on_duplicate_key_update new r else r) rows
      else rows @ [new])"

text \<open>\<open>COALESCE(?, column)\<close>: the parameter unless it is NULL.\<close>

fun coalesce :: "'a option \<Rightarrow> 'a option \<Rightarrow> 'a option" where
  "coalesce None c = c"
| "coalesce (Some v) c = Some v"

fun coalesce_flag :: "bool option \<Rightarrow> bool \<Rightarrow> bool" where
  "coalesce_flag None c = c"
| "coalesce_flag (Some v) c = v"

definition update_message :: "string option \<Rightarrow> bool option \<Rightarrow> bool option \<Rightarrow> string \<Rightarrow>
    message_row list \<Rightarrow> message_row list" where
  "update_message status sync_status sync_message mid rows =
     map (\<lambda>r. if ID r = mid
               then r\<lparr>STATUS := coalesce status (STATUS r),
                      SYNC_STATUS := coalesce_flag sync_status (SYNC_STATUS r),
                      SYNC_MESSAGE := coalesce_flag sync_message (SYNC_MESSAGE r)\<rparr>
               else r) rows"

definition select_unsynced :: "string \<Rightarrow> message_row list \<Rightarrow> message_row list" where
  "select_unsynced inst rows =
     filter (\<lambda>r. (SYNC_MESSAGE r = False \<or> SYNC_STATUS r = False) \<and> INSTANCE r = inst) rows"

section \<open>saveMessage and updateMessage\<close>

definition instance_key :: "WhatsappInstance \<Rightarrow> string" where
  "instance_key this = clientName this @ ''_'' @ whatsappNumber this"

text \<open>The parameters of the INSERT, in the order of the source.\<close>

definition save_params :: "WhatsappInstance \<Rightarrow> ParsedMessage \<Rightarrow> string \<Rightarrow> message_row" where
  "save_params this message from =
     \<lparr>ID = pm_ID message,
      MENSAGEM = or_null (pm_MENSAGEM message),
      ID_REFERENCIA = or_null (pm_ID_REFERENCIA message),
      TIPO = or_null (pm_TIPO message),
      TIMESTAMP = num_or_null (pm_TIMESTAMP message),
      FROM_ME = pm_FROM_ME message,
      DATA_HORA = pm_DATA_HORA message,
      STATUS = or_null (pm_STATUS message),
      ARQUIVO_TIPO = or_null (Option.bind (pm_ARQUIVO message) arq_TIPO),
      ARQUIVO_NOME_ORIGINAL = or_null (Option.bind (pm_ARQUIVO message) NOME_ORIGINAL),
      ARQUIVO_NOME = or_null (Option.bind (pm_ARQUIVO message) NOME_ARQUIVO),
      ARQUIVO_ARMAZENAMENTO = or_null (Option.bind (pm_ARQUIVO message) ARMAZENAMENTO),
      SYNC_MESSAGE = False,
      SYNC_STATUS = False,
      INSTANCE = instance_key this,
      FROM = from\<rparr>"

text \<open>
  \<open>saveMessage\<close>: connection and statement inside \<open>try\<close>; the handler records the error in
  the log, calls \<open>log.save()\<close> and prints a line. Nothing is thrown to the caller.
\<close>

definition saveMessage :: "WhatsappInstance \<Rightarrow> env \<Rightarrow> ParsedMessage \<Rightarrow> string \<Rightarrow> world \<Rightarrow> world" where
  "saveMessage this e message from w =
     (let log = new_Log e (clientName this) ''save-local-message'' (pm_ID message) [''message'']
      in if db_ok e (Insert (pm_ID message))
         then logWithDate (tag this @ ''Message saved successfully => '' @ pm_ID message)
                (w\<lparr>messages := insert_message (save_params this message from) (messages w)\<rparr>)
         else logWithDate (tag this @ ''Save message failure =>'')
                (snd (save e (setError DbError log) w)))"

text \<open>
  The second argument of \<open>updateMessage\<close>: a field left out is \<open>undefined\<close> (\<open>None\<close>).
  The parameters are \<open>STATUS || null\<close> and, for each flag, the flag unless it is \<open>undefined\<close>.
  The handler only prints a line.
\<close>

record update_fields =
  upd_SYNC_STATUS :: "bool option"
  upd_SYNC_MESSAGE :: "bool option"
  upd_STATUS :: "string option"

definition updateMessage :: "WhatsappInstance \<Rightarrow> env \<Rightarrow> string \<Rightarrow> update_fields \<Rightarrow> world \<Rightarrow> world" where
  "updateMessage this e mid u w =
     (if db_ok e (Update mid)
      then logWithDate (tag this @ ''Message updated successfully => '' @ mid)
             (w\<lparr>messages := update_message (or_null (upd_STATUS u)) (upd_SYNC_STATUS u)
                               (upd_SYNC_MESSAGE u) mid (messages w)\<rparr>)
      else logWithDate (tag this @ ''Update message failure =>'') w)"

section \<open>The tasks of the queue (whatsapp.ts, onReceiveMessage and onReceiveMessageStatus)\<close>

text \<open>
  The task of \<open>onReceiveMessageStatus\<close>. The rejection of \<open>axios.put\<close> is replaced by \<open>null\<close>
  (\<open>.catch(() => null)\<close>) and \<open>updateMessage\<close> throws nothing, so no statement of the \<open>try\<close>
  block reaches the handler (the one that would set \<open>SYNC_STATUS\<close> to false): the answer
  of the backend (\<open>http_ok\<close>) is not read anywhere.
\<close>

definition onReceiveMessageStatus_task :: "WhatsappInstance \<Rightarrow> env \<Rightarrow> wa_message \<Rightarrow> world \<Rightarrow> world" where
  "onReceiveMessageStatus_task this e message w =
     (let status = status_of_ack (ack message);
          w1 = axios \<lparr>req_method = PUT,
                      url = requestURL this @ ''/update_message/'' @ id_serialized message,
                      body = StatusBody (Some status)\<rparr> w;
          w2 = updateMessage this e (id_serialized message)
                 \<lparr>upd_SYNC_STATUS = Some True, upd_SYNC_MESSAGE = None, upd_STATUS = None\<rparr> w1
      in logWithDate (tag this @ ''Status success => '' @ status @ '' '' @ id_serialized message) w2)"

text \<open>
  The handler of the task of \<open>onReceiveMessage\<close>: \<open>log.setError\<close>; \<open>log.save()\<close>, which is
  not awaited but runs up to its own handler before it returns; then
  \<open>console.error(err?.response?.data)\<close>, kept as the line \<open>undefined\<close>, which is what it
  prints for an error without a response; and the failure line. The arguments of that
  last call read \<open>err.response\<close> without a guard: when the value caught is \<open>null\<close> or
  \<open>undefined\<close> this throws inside the handler, the line is not printed and the promise of
  the task is rejected. The result says how the promise of the task settles.
\<close>

definition message_failure ::
    "WhatsappInstance \<Rightarrow> env \<Rightarrow> exn \<Rightarrow> Log \<Rightarrow> world \<Rightarrow> settle \<times> world" where
  "message_failure this e err log w =
     (let w1 = logWithDate ''undefined'' (snd (save e (setError err log) w))
      in if err = Nullish then (Rejected, w1)
         else (Resolved, logWithDate (tag this @ ''Message failure =>'') w1))"

fun run_autoMessages :: "env \<Rightarrow> nat list \<Rightarrow> wa_message \<Rightarrow> string \<Rightarrow> exn option" where
  "run_autoMessages e [] message contactNumber = None"
| "run_autoMessages e (autoMessage # rest) message contactNumber =
     (case runAutoMessage e autoMessage message contactNumber of
        Some err \<Rightarrow> Some err
      | None \<Rightarrow> run_autoMessages e rest message contactNumber)"

definition blockedTypes :: "string list" where
  "blockedTypes = [''e2e_notification'', ''notification_template'', ''call_log'', ''gp2'']"

text \<open>
  The task of \<open>onReceiveMessage\<close>, statement by statement; each statement that can throw
  has its branch to the handler. The rejection of \<open>axios.post\<close> is replaced by \<open>null\<close>.
  The last \<open>updateMessage\<close> is not awaited: the task prints its success line and ends,
  and the update runs after that. It is taken here right after the task, before anything
  else touches the table. The result says how the promise of the task settles: it is
  rejected only when the handler itself throws.
\<close>

definition onReceiveMessage_task ::
    "WhatsappInstance \<Rightarrow> env \<Rightarrow> wa_message \<Rightarrow> world \<Rightarrow> settle \<times> world" where
  "onReceiveMessage_task this e message w =
     (let log = new_Log e (clientName this) ''send-file'' (decimal (now e)) [''message''];
          fromNow = isMessageFromNow e message
      in case getChat e message of
           Inl err \<Rightarrow> message_failure this e err log w
         | Inr chat \<Rightarrow>
             (let contactNumber = chat_user chat;
                  isBlackListedType = msg_type message \<in> set blockedTypes;
                  isBlackListedContact = contactNumber \<in> set (blockedNumbers this);
                  isBlackListed = (isBlackListedType \<or> isBlackListedContact)
              in case run_autoMessages e (autoMessages this) message contactNumber of
                   Some err \<Rightarrow> message_failure this e err log w
                 | None \<Rightarrow>
                     if \<not> isGroup chat \<and> fromNow \<and> \<not> isStatus message \<and> \<not> isBlackListed
                        \<and> \<not> isStatus message
                     then
                       (case messageParser e message of
                          Inl err \<Rightarrow> message_failure this e err log w
                        | Inr None \<Rightarrow>
                            message_failure this e (Error ''Parse message failure'')
                              (setData (\<lambda>d. d @ [''parsedMessage'']) log) w
                        | Inr (Some parsedMessage) \<Rightarrow>
                            (let log1 = setData (\<lambda>d. d @ [''parsedMessage'']) log;
                                 w1 = saveMessage this e parsedMessage contactNumber w;
                                 w2 = axios \<lparr>req_method = POST,
                                             url = requestURL this @ ''/receive_message/''
                                                   @ whatsappNumber this @ ''/'' @ contactNumber,
                                             body = ParsedBody parsedMessage\<rparr> w1
                             in if \<not> db_ok e (SelectSaved (pm_ID parsedMessage))
                                then message_failure this e DbError log1 w2
                                else
                                  (let savedMessage = (pm_ID parsedMessage \<in> set (w_mensagens w2));
                                       w3 = logWithDate (tag this @ ''Message success => ''
                                                         @ id_serialized message) w2
                                   in if savedMessage
                                      then (Resolved,
                                            updateMessage this e (pm_ID parsedMessage)
                                              \<lparr>upd_SYNC_STATUS = Some True,
                                               upd_SYNC_MESSAGE = Some True,
                                               upd_STATUS = None\<rparr> w3)
                                      else (Resolved, w3))))
                     else (Resolved, w)))"

section \<open>The reconciliation sweep (whatsapp.ts, syncMessagesWithServer)\<close>

text \<open>
  One iteration of the loop. \<open>SYNC_MESSAGE\<close>, \<open>SYNC_STATUS\<close> and \<open>STATUS\<close> are read from the
  selected row once, before the two \<open>if\<close>s. A rejected request throws into the handler of
  the iteration (\<open>sync_failure\<close>); the update runs in \<open>.then\<close>, so only after a 2xx answer.
  \<open>mapToParsedMessage\<close> (utils.ts) is not among the sources: the body of the POST is kept as
  the row it is computed from.
\<close>

definition sync_failure :: "WhatsappInstance \<Rightarrow> env \<Rightarrow> exn \<Rightarrow> Log \<Rightarrow> world \<Rightarrow> world" where
  "sync_failure this e err log w =
     logWithDate (tag this @ ''Sync message failure =>'') (snd (save e (setError err log) w))"

definition sync_row :: "WhatsappInstance \<Rightarrow> env \<Rightarrow> world \<Rightarrow> message_row \<Rightarrow> world" where
  "sync_row this e w message =
     (let log = new_Log e (clientName this) ''sync-message'' (ID message) [];
          first =
            (if \<not> SYNC_MESSAGE message
             then (let req = \<lparr>req_method = POST,
                              url = requestURL this @ ''/receive_message/''
                                    @ whatsappNumber this @ ''/'' @ FROM message,
                              body = RowBody message\<rparr>;
                       log1 = setData (\<lambda>d. [''parsedMessage'']) log
                   in if http_ok e req
                      then Inr (log1, updateMessage this e (ID message)
                                        \<lparr>upd_SYNC_STATUS = Some True, upd_SYNC_MESSAGE = Some True,
                                         upd_STATUS = None\<rparr> (axios req w))
                      else Inl (AxiosError, log1, axios req w))
             else Inr (log, w))
      in case first of
           Inl (err, log1, w1) \<Rightarrow> sync_failure this e err log1 w1
         | Inr (log1, w1) \<Rightarrow>
             if SYNC_MESSAGE message \<and> \<not> SYNC_STATUS message
             then (let req = \<lparr>req_method = PUT,
                              url = requestURL this @ ''/update_message/'' @ FROM message,
                              body = StatusBody (STATUS message)\<rparr>;
                       log2 = setData (\<lambda>d. [''status'']) log1
                   in if http_ok e req
                      then updateMessage this e (ID message)
                             \<lparr>upd_SYNC_STATUS = Some True, upd_SYNC_MESSAGE = None,
                              upd_STATUS = None\<rparr> (axios req w1)
                      else sync_failure this e AxiosError log2 (axios req w1))
             else w1)"

definition syncMessagesWithServer :: "WhatsappInstance \<Rightarrow> env \<Rightarrow> world \<Rightarrow> world" where
  "syncMessagesWithServer this e w =
     (if db_ok e SelectUnsynced
      then foldl (sync_row this e) w (select_unsynced (instance_key this) (messages w))
      else logWithDate (tag this @ ''Sync messages failure =>'') w)"

section \<open>Example inputs\<close>

definition example_instance :: WhatsappInstance where
  "example_instance =
     \<lparr>requestURL = ''http://backend'', clientName = ''acme'', whatsappNumber = ''5511'',
      blockedNumbers = [], autoMessages = []\<rparr>"

definition stored_M1 :: message_row where
  "stored_M1 =
     \<lparr>ID = ''M1'', MENSAGEM = Some ''hi'', ID_REFERENCIA = None, TIPO = Some ''chat'',
      TIMESTAMP = Some 1700000000000, FROM_ME = False, DATA_HORA = Some 1700000000000,
      STATUS = Some ''READ'', ARQUIVO_TIPO = None, ARQUIVO_NOME_ORIGINAL = None,
      ARQUIVO_NOME = None, ARQUIVO_ARMAZENAMENTO = None, SYNC_MESSAGE = True,
      SYNC_STATUS = False, INSTANCE = ''acme_5511'', FROM = ''5599''\<rparr>"

definition world_M1 :: world where
  "world_M1 = \<lparr>messages = [stored_M1], w_mensagens = [''M1''], requests = [], files = [],
               console = []\<rparr>"

definition parsed_M1 :: "string \<Rightarrow> ParsedMessage" where
  "parsed_M1 text =
     \<lparr>pm_ID = ''M1'', pm_MENSAGEM = Some text, pm_ID_REFERENCIA = None,
      pm_TIPO = Some ''chat'', pm_TIMESTAMP = Some 1700000000000, pm_FROM_ME = False,
      pm_DATA_HORA = Some 1700000000000, pm_STATUS = Some ''RECEIVED'', pm_ARQUIVO = None\<rparr>"

text \<open>
  What \<open>path.join\<close> gives for segments that need no normalisation (none empty, none \<open>.\<close> or
  \<open>..\<close>, no \<open>/\<close> but at the head of the first): the segments with \<open>/\<close> between them. The
  example environment uses it on such segments only.
\<close>

fun join_segments :: "string list \<Rightarrow> string" where
  "join_segments [] = ''.''"
| "join_segments [p] = p"
| "join_segments (p # ps) = p @ ''/'' @ join_segments ps"

text \<open>
  Two environments that differ only in the backend: in \<open>backend_up\<close> every request is
  answered with a 2xx status, in \<open>backend_down\<close> none is.
\<close>

definition environment :: "bool \<Rightarrow> env" where
  "environment up =
     \<lparr>http_ok = (\<lambda>req. up), db_ok = (\<lambda>c. True), LOGS_PATH = Some ''/logs'', fs_ok = True,
      stringify_ok = True, path_join = join_segments, now = 1700000000000,
      getChat = (\<lambda>m. Inr \<lparr>isGroup = False, chat_user = ''5599''\<rparr>),
      isMessageFromNow = (\<lambda>m. True),
      messageParser = (\<lambda>m. Inr (Some (parsed_M1 ''hi''))),
      runAutoMessage = (\<lambda>a m c. None)\<rparr>"

definition backend_up :: env where
  "backend_up = environment True"

definition backend_down :: env where
  "backend_down = environment False"

definition ack_M1 :: wa_message where
  "ack_M1 = \<lparr>id_serialized = ''M1'', msg_type = ''chat'', isStatus = False, ack = 3\<rparr>"

text \<open>
  Task 1 is enqueued and throws; task 2 is enqueued afterwards. In \<open>three_tasks\<close> every
  task returns normally, and the third arrives while the second is running.
\<close>

definition thrown_then_enqueued :: "nat event list" where
  "thrown_then_enqueued =
     [EnqueueMessage 1 ''M1'', Settled Rejected, EnqueueStatus 2 ''M1'']"

definition three_tasks :: "nat event list" where
  "three_tasks =
     [EnqueueMessage 1 ''M1'', EnqueueStatus 2 ''M1'', Settled Resolved,
      EnqueueMessage 3 ''M2'', Settled Resolved, Settled Resolved]"

definition one_task :: "nat event list" where
  "one_task = [EnqueueMessage 1 ''M1'']"

text \<open>The two update objects of the spec's examples: \<open>{STATUS: "READ"}\<close> and \<open>{SYNC_STATUS: true}\<close>.\<close>

definition status_READ :: update_fields where
  "status_READ = \<lparr>upd_SYNC_STATUS = None, upd_SYNC_MESSAGE = None, upd_STATUS = Some ''READ''\<rparr>"

definition status_synced :: update_fields where
  "status_synced = \<lparr>upd_SYNC_STATUS = Some True, upd_SYNC_MESSAGE = None, upd_STATUS = None\<rparr>"

text \<open>The same table with message M1 settled: both flags true.\<close>

definition world_settled :: world where
  "world_settled = world_M1\<lparr>messages := [stored_M1\<lparr>SYNC_STATUS := True\<rparr>]\<rparr>"

text \<open>
  Two environments in which \<open>message.getChat()\<close> fails, with an \<open>Error\<close> and with a rejection
  whose value is \<open>undefined\<close>; and a log as the tasks create it.
\<close>

definition chat_unavailable :: env where
  "chat_unavailable = backend_up\<lparr>getChat := (\<lambda>m. Inl (Error ''detached''))\<rparr>"

definition chat_rejects_undefined :: env where
  "chat_rejects_undefined = backend_up\<lparr>getChat := (\<lambda>m. Inl Nullish)\<rparr>"

definition fresh_log :: Log where
  "fresh_log = new_Log backend_up ''acme'' ''send-file'' ''1700000000000'' [''message'']"

section \<open>The queue: order, exclusion, idleness\<close>

lemma enqueued_append: "enqueued (es @ es') = enqueued es @ enqueued es'"
  by (induction es rule: enqueued.induct) simp_all

lemma run_snoc: "run (es @ [e]) s = step (run es s) e"
  by (simp add: run_def)

lemma run_append: "run (es @ es') s = run es' (run es s)"
  by (simp add: run_def)

lemma queue_inv_initial: "queue_inv initial_queue"
  by (simp add: queue_inv_def initial_queue_def)

lemma queue_inv_step: "queue_inv s \<Longrightarrow> queue_inv (step s e)"
  by (cases e)
    (auto simp: queue_inv_def enqueueMessageProcessing_def enqueueStatusProcessing_def
       enqueueProcessing_def processUnifiedQueue_def drain_def resume_def
       split: list.splits option.splits settle.splits)

lemma queue_inv_run: "queue_inv s \<Longrightarrow> queue_inv (run es s)"
  by (induction es rule: rev_induct) (simp_all add: run_def queue_inv_step)

lemma fifo_step:
  "queue_inv s \<Longrightarrow>
     started (step s e) @ unifiedQueue (step s e) = started s @ unifiedQueue s @ enqueued [e]"
  by (cases e)
    (auto simp: queue_inv_def enqueueMessageProcessing_def enqueueStatusProcessing_def
       enqueueProcessing_def processUnifiedQueue_def drain_def resume_def
       split: list.splits option.splits settle.splits)

lemma fifo_run:
  "queue_inv s \<Longrightarrow>
     started (run es s) @ unifiedQueue (run es s) = started s @ unifiedQueue s @ enqueued es"
proof (induction es rule: rev_induct)
  case Nil
  then show ?case by (simp add: run_def)
next
  case (snoc e es)
  have "queue_inv (run es s)"
    using snoc.prems by (rule queue_inv_run)
  from fifo_step [OF this, of e] snoc show ?case
    by (simp add: run_snoc enqueued_append)
qed

lemma loop_alive_step:
  "(\<not> loop_rejected s \<longrightarrow> processingUnifiedQueue s \<longrightarrow> awaiting s \<noteq> None) \<Longrightarrow>
   \<not> loop_rejected (step s e) \<Longrightarrow>
     \<not> loop_rejected s \<and> (processingUnifiedQueue (step s e) \<longrightarrow> awaiting (step s e) \<noteq> None)"
  by (cases e)
    (auto simp: enqueueMessageProcessing_def enqueueStatusProcessing_def
       enqueueProcessing_def processUnifiedQueue_def drain_def resume_def
       split: list.splits option.splits settle.splits if_splits)

lemma loop_alive_run:
  "\<not> loop_rejected (run es initial_queue) \<Longrightarrow>
     processingUnifiedQueue (run es initial_queue) \<longrightarrow> awaiting (run es initial_queue) \<noteq> None"
proof (induction es rule: rev_induct)
  case Nil
  then show ?case by (simp add: run_def initial_queue_def)
next
  case (snoc e es)
  let ?s = "run es initial_queue"
  have rej: "\<not> loop_rejected (step ?s e)"
    using snoc.prems by (simp add: run_snoc)
  have "\<not> loop_rejected ?s \<longrightarrow> processingUnifiedQueue ?s \<longrightarrow> awaiting ?s \<noteq> None"
    using snoc.IH by blast
  from loop_alive_step [OF this rej] show ?case
    by (simp add: run_snoc)
qed

text \<open>
  C2. For every sequence of enqueue calls and task completions on one instance: the tasks
  called so far, followed by the tasks still in the list, are the enqueued tasks in the
  order of their enqueueing (so tasks are called in FIFO order); at most one task is
  running at any time; whenever the loop is idle (flag cleared) the list is empty,
  nothing runs and every enqueued task has been called; and as long as no task has thrown,
  a list that is not empty has a loop awaiting a task, which will reach it.
\<close>

theorem queue_fifo_one_at_a_time:
  "started (run es initial_queue) @ unifiedQueue (run es initial_queue) = enqueued es
   \<and> length (running (run es initial_queue)) \<le> 1
   \<and> (\<not> processingUnifiedQueue (run es initial_queue) \<longrightarrow>
        unifiedQueue (run es initial_queue) = [] \<and> running (run es initial_queue) = []
        \<and> started (run es initial_queue) = enqueued es)
   \<and> (\<not> loop_rejected (run es initial_queue) \<and> unifiedQueue (run es initial_queue) \<noteq> [] \<longrightarrow>
        awaiting (run es initial_queue) \<noteq> None)"
proof -
  have inv: "queue_inv (run es initial_queue)"
    by (rule queue_inv_run [OF queue_inv_initial])
  have fifo: "started (run es initial_queue) @ unifiedQueue (run es initial_queue) = enqueued es"
    using fifo_run [OF queue_inv_initial, of es] by (simp add: initial_queue_def)
  show ?thesis
    using inv fifo loop_alive_run [of es] by (auto simp: queue_inv_def split: option.splits)
qed

theorem queue_fifo_one_at_a_time_witness:
  "\<not> processingUnifiedQueue (run three_tasks initial_queue)
   \<and> started (run three_tasks initial_queue) = [1, 2, 3]
   \<and> enqueued three_tasks = [1, 2, 3]"
  using queue_fifo_one_at_a_time [of three_tasks]
  by (simp add: three_tasks_def run_def initial_queue_def enqueueMessageProcessing_def
        enqueueStatusProcessing_def enqueueProcessing_def processUnifiedQueue_def drain_def
        resume_def)

section \<open>The queue: a task that throws\<close>

lemma stalled_step:
  "stalled s \<Longrightarrow> stalled (step s e) \<and> started (step s e) = started s
     \<and> unifiedQueue (step s e) = unifiedQueue s @ enqueued [e]"
  by (cases e)
    (auto simp: stalled_def enqueueMessageProcessing_def enqueueStatusProcessing_def
       enqueueProcessing_def processUnifiedQueue_def resume_def)

lemma stalled_run:
  "stalled s \<Longrightarrow> stalled (run es s) \<and> started (run es s) = started s
     \<and> unifiedQueue (run es s) = unifiedQueue s @ enqueued es"
proof (induction es rule: rev_induct)
  case Nil
  then show ?case by (simp add: run_def)
next
  case (snoc e es)
  then have st: "stalled (run es s)" by simp
  from stalled_step [OF st, of e] snoc show ?case
    by (simp add: run_snoc enqueued_append)
qed

lemma resume_Rejected_stalled:
  "queue_inv s \<Longrightarrow> awaiting s = Some task \<Longrightarrow>
     stalled (resume Rejected s) \<and> started (resume Rejected s) = started s
     \<and> unifiedQueue (resume Rejected s) = unifiedQueue s \<and> loop_rejected (resume Rejected s)
     \<and> running (resume Rejected s) = []"
  by (simp add: queue_inv_def stalled_def resume_def)

lemma resume_Resolved_goes_on:
  "awaiting s = Some task \<Longrightarrow>
     (unifiedQueue s = [] \<longrightarrow> \<not> processingUnifiedQueue (resume Resolved s))
     \<and> (unifiedQueue s = next_task # rest \<longrightarrow> awaiting (resume Resolved s) = Some next_task)"
  by (simp add: resume_def drain_def)

lemma loop_rejected_step: "loop_rejected s \<Longrightarrow> loop_rejected (step s e)"
  by (cases e)
    (auto simp: enqueueMessageProcessing_def enqueueStatusProcessing_def
       enqueueProcessing_def processUnifiedQueue_def drain_def resume_def
       split: list.splits option.splits settle.splits)

lemma rejection_stalls_step:
  "queue_inv s \<Longrightarrow> \<not> loop_rejected s \<Longrightarrow> loop_rejected (step s e) \<Longrightarrow> stalled (step s e)"
  by (cases e)
    (auto simp: queue_inv_def stalled_def enqueueMessageProcessing_def
       enqueueStatusProcessing_def enqueueProcessing_def processUnifiedQueue_def drain_def
       resume_def split: list.splits option.splits settle.splits if_splits)

lemma rejected_is_stalled:
  "loop_rejected (run es initial_queue) \<Longrightarrow> stalled (run es initial_queue)"
proof (induction es rule: rev_induct)
  case Nil
  then show ?case by (simp add: run_def initial_queue_def)
next
  case (snoc e es)
  let ?s = "run es initial_queue"
  have inv: "queue_inv ?s"
    by (rule queue_inv_run [OF queue_inv_initial])
  show ?case
  proof (cases "loop_rejected ?s")
    case True
    then have "stalled ?s" by (rule snoc.IH)
    from stalled_step [OF this, of e] show ?thesis
      by (simp add: run_snoc)
  next
    case False
    from rejection_stalls_step [OF inv False, of e] snoc.prems show ?thesis
      by (simp add: run_snoc)
  qed
qed

lemma process_run_snoc:
  "process_run k (es @ [e]) p = process_step k (process_run k es p) e"
  by (simp add: process_run_def)

lemma process_run_append:
  "process_run k (es @ es') p = process_run k es' (process_run k es p)"
  by (simp add: process_run_def)

lemma process_run_Cons:
  "process_run k (e # es) p = process_run k es (process_step k p e)"
  by (simp add: process_run_def)

lemma process_run_Exited: "process_run k es (Exited s) = Exited s"
  by (induction es) (simp_all add: process_run_def)

lemma process_run_keeps_running: "process_run True es (Running s) = Running (run es s)"
  by (induction es arbitrary: s) (simp_all add: process_run_def run_def)

lemma process_run_no_rejection:
  "\<not> loop_rejected (run es s) \<Longrightarrow> process_run k es (Running s) = Running (run es s)"
proof (induction es rule: rev_induct)
  case Nil
  then show ?case by (simp add: process_run_def run_def)
next
  case (snoc e es)
  have now: "\<not> loop_rejected (step (run es s) e)"
    using snoc.prems by (simp add: run_snoc)
  then have "\<not> loop_rejected (run es s)"
    using loop_rejected_step [of "run es s" e] by blast
  then have "process_run k es (Running s) = Running (run es s)"
    by (rule snoc.IH)
  with now show ?case
    by (simp add: process_run_snoc run_snoc)
qed

text \<open>
  C3 (as amended). When the task the loop awaits throws, the loop does not put it back in
  the list, but the failure is not contained: the promise of \<open>processUnifiedQueue\<close> is
  rejected, and \<open>enqueueProcessing\<close> has dropped that promise, so the rejection is unhandled.
  From then on the processing flag is never reset and no task is called any more: either
  the process ends at the unhandled rejection, or it goes on and the tasks enqueued
  afterwards only lengthen the list.
\<close>

theorem rejected_task_stalls_queue:
  assumes "awaiting (run es initial_queue) = Some task"
  shows "process_run k es (Running initial_queue) = Running (run es initial_queue)
    \<and> unifiedQueue (queue_of (process_run k (es @ [Settled Rejected]) (Running initial_queue)))
        = unifiedQueue (run es initial_queue)
    \<and> loop_rejected
        (queue_of (process_run k (es @ Settled Rejected # es') (Running initial_queue)))
    \<and> processingUnifiedQueue
        (queue_of (process_run k (es @ Settled Rejected # es') (Running initial_queue)))
    \<and> started (queue_of (process_run k (es @ Settled Rejected # es') (Running initial_queue)))
        = started (run es initial_queue)
    \<and> (k \<longrightarrow>
         unifiedQueue
           (queue_of (process_run k (es @ Settled Rejected # es') (Running initial_queue)))
           = unifiedQueue (run es initial_queue) @ enqueued es')
    \<and> (\<not> k \<longrightarrow>
         exited (process_run k (es @ Settled Rejected # es') (Running initial_queue))
         \<and> unifiedQueue
             (queue_of (process_run k (es @ Settled Rejected # es') (Running initial_queue)))
             = unifiedQueue (run es initial_queue))"
proof -
  let ?s = "run es initial_queue"
  let ?r = "resume Rejected ?s"
  have inv: "queue_inv ?s"
    by (rule queue_inv_run [OF queue_inv_initial])
  have alive: "\<not> loop_rejected ?s"
    using rejected_is_stalled [of es] assms by (auto simp: stalled_def)
  have before: "process_run k es (Running initial_queue) = Running ?s"
    using alive by (rule process_run_no_rejection)
  note rej = resume_Rejected_stalled [OF inv assms]
  have at: "process_step k (Running ?s) (Settled Rejected) = (if k then Running ?r else Exited ?r)"
    using rej alive by simp
  have after: "process_run k (es @ Settled Rejected # es') (Running initial_queue) =
                 (if k then Running (run es' ?r) else Exited ?r)" for es'
  proof -
    have "process_run k (es @ Settled Rejected # es') (Running initial_queue) =
            process_run k es' (process_step k (Running ?s) (Settled Rejected))"
      by (simp add: process_run_append process_run_Cons before del: process_step.simps)
    also have "\<dots> = process_run k es' (if k then Running ?r else Exited ?r)"
      by (simp only: at)
    also have "\<dots> = (if k then Running (run es' ?r) else Exited ?r)"
      by (cases k) (simp_all add: process_run_Exited process_run_keeps_running)
    finally show ?thesis .
  qed
  from rej have "stalled ?r"
    by simp
  note later = stalled_run [OF this, of es']
  have rej': "loop_rejected (run es' ?r)"
  proof (induction es' rule: rev_induct)
    case Nil
    then show ?case using rej by (simp add: run_def)
  next
    case (snoc e es')
    then show ?case by (simp add: run_snoc loop_rejected_step)
  qed
  have run_Nil: "run [] ?r = ?r"
    by (simp add: run_def)
  have state: "queue_of (process_run k (es @ Settled Rejected # es') (Running initial_queue)) =
                 (if k then run es' ?r else ?r)" for es'
    by (simp add: after)
  have ended: "exited (process_run k (es @ Settled Rejected # es') (Running initial_queue)) =
                 (\<not> k)"
    by (simp add: after)
  show ?thesis
    using rej later rej' before state [of es'] state [of "[]"] ended
    by (cases k) (simp_all add: stalled_def run_Nil)
qed

text \<open>
  C3 as stated fails: after task 1 threw, the loop has ended on a rejection with the flag
  still set. Where the process goes on, task 2, enqueued afterwards, sits in the list
  without having been called; where it does not, the process has ended.
\<close>

theorem rejected_task_counterexample:
  "loop_rejected (queue_of (process_run True thrown_then_enqueued (Running initial_queue)))
   \<and> processingUnifiedQueue
       (queue_of (process_run True thrown_then_enqueued (Running initial_queue)))
   \<and> awaiting (queue_of (process_run True thrown_then_enqueued (Running initial_queue))) = None
   \<and> unifiedQueue (queue_of (process_run True thrown_then_enqueued (Running initial_queue))) = [2]
   \<and> started (queue_of (process_run True thrown_then_enqueued (Running initial_queue))) = [1]
   \<and> exited (process_run False thrown_then_enqueued (Running initial_queue))
   \<and> loop_rejected (queue_of (process_run False thrown_then_enqueued (Running initial_queue)))
   \<and> processingUnifiedQueue
       (queue_of (process_run False thrown_then_enqueued (Running initial_queue)))
   \<and> started (queue_of (process_run False thrown_then_enqueued (Running initial_queue))) = [1]"
  by (simp add: thrown_then_enqueued_def process_run_def initial_queue_def
        enqueueMessageProcessing_def enqueueStatusProcessing_def enqueueProcessing_def
        processUnifiedQueue_def drain_def resume_def)

theorem rejected_task_stalls_queue_witness:
  "awaiting (run one_task initial_queue) = Some 1
   \<and> processingUnifiedQueue
       (queue_of (process_run True
          (one_task @ Settled Rejected # [EnqueueStatus 2 ''M1'', Settled Resolved])
          (Running initial_queue)))
   \<and> started
       (queue_of (process_run True
          (one_task @ Settled Rejected # [EnqueueStatus 2 ''M1'', Settled Resolved])
          (Running initial_queue))) = [1]
   \<and> unifiedQueue
       (queue_of (process_run True
          (one_task @ Settled Rejected # [EnqueueStatus 2 ''M1'', Settled Resolved])
          (Running initial_queue))) = [2]
   \<and> exited
       (process_run False
          (one_task @ Settled Rejected # [EnqueueStatus 2 ''M1'', Settled Resolved])
          (Running initial_queue))
   \<and> started
       (queue_of (process_run False
          (one_task @ Settled Rejected # [EnqueueStatus 2 ''M1'', Settled Resolved])
          (Running initial_queue))) = [1]"
proof -
  have a: "awaiting (run one_task initial_queue) = Some 1"
    and q: "unifiedQueue (run one_task initial_queue) = []"
    and s: "started (run one_task initial_queue) = [1]"
    by (simp_all add: one_task_def run_def initial_queue_def enqueueMessageProcessing_def
          enqueueProcessing_def processUnifiedQueue_def drain_def)
  from rejected_task_stalls_queue [OF a, of True "[EnqueueStatus 2 ''M1'', Settled Resolved]"]
       rejected_task_stalls_queue [OF a, of False "[EnqueueStatus 2 ''M1'', Settled Resolved]"]
       a q s
  show ?thesis by simp
qed

section \<open>The status of an acknowledgement code\<close>

text \<open>
  C5. The mapping from acknowledgement codes to statuses is total: 0 gives PENDING, 1 SENT,
  2 RECEIVED, 3 READ, 4 PLAYED, and every other integer (negative, or 5 and above) gives
  ERROR.
\<close>

theorem status_of_ack_table:
  "status_of_ack 0 = ''PENDING'' \<and> status_of_ack 1 = ''SENT'' \<and> status_of_ack 2 = ''RECEIVED''
   \<and> status_of_ack 3 = ''READ'' \<and> status_of_ack 4 = ''PLAYED''
   \<and> (i < 0 \<or> 5 \<le> i \<longrightarrow> status_of_ack i = ''ERROR'')"
  by (simp add: status_of_ack_def js_index_def)

theorem status_of_ack_table_witness:
  "(-1::int) < 0 \<and> status_of_ack (-1) = ''ERROR'' \<and> (5::int) \<le> 7 \<and> status_of_ack 7 = ''ERROR''"
  using status_of_ack_table [of "-1"] status_of_ack_table [of 7] by simp

section \<open>saveMessage: one row per identifier\<close>

lemma filter_unique_key:
  "distinct (map f xs) \<Longrightarrow> x \<in> set xs \<Longrightarrow> filter (\<lambda>y. f y = f x) xs = [x]"
proof (induction xs)
  case Nil
  then show ?case by simp
next
  case (Cons a xs)
  show ?case
  proof (cases "a = x")
    case True
    have "filter (\<lambda>y. f y = f x) xs = []"
      using Cons.prems(1) True by (auto simp: filter_empty_conv image_iff)
    with True show ?thesis by simp
  next
    case False
    with Cons.prems have "x \<in> set xs" by simp
    moreover have "f a \<noteq> f x"
      using Cons.prems(1) \<open>x \<in> set xs\<close> by auto
    ultimately show ?thesis using Cons by simp
  qed
qed

lemma map_ID_insert_message:
  "map ID (insert_message new rows) =
     (if ID new \<in> set (map ID rows) then map ID rows else map ID rows @ [ID new])"
  by (simp add: insert_message_def on_duplicate_key_update_def comp_def cong: map_cong)

lemma unique_ID_insert_message: "unique_ID rows \<Longrightarrow> unique_ID (insert_message new rows)"
  by (simp add: unique_ID_def map_ID_insert_message)

lemma ID_mem_insert_message: "ID new \<in> set (map ID (insert_message new rows))"
  by (simp add: map_ID_insert_message)

lemma MENSAGEM_insert_message:
  "r \<in> set (insert_message new rows) \<Longrightarrow> ID r = ID new \<Longrightarrow> MENSAGEM r = MENSAGEM new"
  by (auto simp: insert_message_def on_duplicate_key_update_def image_iff split: if_splits)

lemma flags_insert_message:
  "r \<in> set (insert_message new rows) \<Longrightarrow> ID r = ID new \<Longrightarrow>
     SYNC_MESSAGE r = SYNC_MESSAGE new \<and> SYNC_STATUS r = SYNC_STATUS new"
  by (auto simp: insert_message_def on_duplicate_key_update_def image_iff split: if_splits)

lemma one_row_insert_message:
  assumes "unique_ID rows"
  shows "\<exists>r. filter (\<lambda>r. ID r = ID new) (insert_message new rows) = [r]
              \<and> MENSAGEM r = MENSAGEM new"
proof -
  from ID_mem_insert_message [of new rows]
  obtain r where r: "r \<in> set (insert_message new rows)" "ID r = ID new"
    by auto
  have "distinct (map ID (insert_message new rows))"
    using unique_ID_insert_message [OF assms] by (simp add: unique_ID_def)
  from filter_unique_key [OF this r(1)] r(2)
  have "filter (\<lambda>y. ID y = ID new) (insert_message new rows) = [r]"
    by simp
  moreover have "MENSAGEM r = MENSAGEM new"
    using r by (rule MENSAGEM_insert_message)
  ultimately show ?thesis by blast
qed

lemma messages_saveMessage:
  "db_ok e (Insert (pm_ID message)) \<Longrightarrow>
     messages (saveMessage this e message from w) =
       insert_message (save_params this message from) (messages w)"
  by (simp add: saveMessage_def logWithDate_def)

lemma messages_save: "messages (snd (save e l w)) = messages w"
  by (simp add: save_def logWithDate_def Let_def split: option.splits)

lemma unique_ID_saveMessage:
  "unique_ID (messages w) \<Longrightarrow> unique_ID (messages (saveMessage this e message from w))"
  by (cases "db_ok e (Insert (pm_ID message))")
    (simp_all add: messages_saveMessage unique_ID_insert_message saveMessage_def
       logWithDate_def messages_save Let_def)

text \<open>
  C6. On a table with unique identifiers, after two calls of \<open>saveMessage\<close> with the same
  identifier whose statements both execute, the table has exactly one row with that
  identifier, and its \<open>MENSAGEM\<close> is the body of the second call as \<open>saveMessage\<close> binds it
  (\<open>message.MENSAGEM || null\<close>: the body itself, NULL for an absent or empty one). This
  holds whatever the two bodies are, different or not.
\<close>

theorem saveMessage_twice_one_row:
  assumes "unique_ID (messages w)"
    and "db_ok e1 (Insert (pm_ID m1))" and "db_ok e2 (Insert (pm_ID m2))"
    and "pm_ID m1 = pm_ID m2"
  shows "\<exists>r. filter (\<lambda>r. ID r = pm_ID m2)
                (messages (saveMessage this e2 m2 from2 (saveMessage this e1 m1 from1 w))) = [r]
              \<and> MENSAGEM r = or_null (pm_MENSAGEM m2)"
proof -
  have "unique_ID (messages (saveMessage this e1 m1 from1 w))"
    using assms(1) by (rule unique_ID_saveMessage)
  from one_row_insert_message [OF this, of "save_params this m2 from2"]
  show ?thesis
    using assms(3) by (simp add: messages_saveMessage save_params_def)
qed

theorem saveMessage_twice_one_row_witness:
  "unique_ID (messages world_M1)
   \<and> db_ok backend_up (Insert (pm_ID (parsed_M1 ''hi'')))
   \<and> db_ok backend_up (Insert (pm_ID (parsed_M1 ''bye'')))
   \<and> pm_ID (parsed_M1 ''hi'') = pm_ID (parsed_M1 ''bye'')
   \<and> map MENSAGEM (filter (\<lambda>r. ID r = ''M1'')
        (messages (saveMessage example_instance backend_up (parsed_M1 ''bye'') ''5599''
           (saveMessage example_instance backend_up (parsed_M1 ''hi'') ''5599'' world_M1))))
      = [Some ''bye'']"
  using saveMessage_twice_one_row
    [of world_M1 backend_up "parsed_M1 ''hi''" backend_up "parsed_M1 ''bye''"
        example_instance "''5599''" "''5599''"]
  by (auto simp: unique_ID_def world_M1_def stored_M1_def backend_up_def environment_def
        parsed_M1_def)

section \<open>saveMessage on a stored identifier\<close>

text \<open>
  C9. When \<open>saveMessage\<close> is called with an identifier the table already holds and its
  statement executes, no row is added, and every row with that identifier has
  \<open>SYNC_MESSAGE\<close> and \<open>SYNC_STATUS\<close> false afterwards, whatever they were before; the
  row is then among the rows the sweep of its instance selects.
\<close>

theorem saveMessage_existing_clears_sync_flags:
  assumes "db_ok e (Insert (pm_ID message))"
    and "pm_ID message \<in> set (map ID (messages w))"
  shows "map ID (messages (saveMessage this e message from w)) = map ID (messages w)
    \<and> (\<forall>r \<in> set (messages (saveMessage this e message from w)).
          ID r = pm_ID message \<longrightarrow>
            \<not> SYNC_MESSAGE r \<and> \<not> SYNC_STATUS r
            \<and> r \<in> set (select_unsynced (INSTANCE r) (messages (saveMessage this e message from w))))"
proof -
  let ?new = "save_params this message from"
  have m: "messages (saveMessage this e message from w) = insert_message ?new (messages w)"
    using assms(1) by (rule messages_saveMessage)
  have k: "ID ?new = pm_ID message" "\<not> SYNC_MESSAGE ?new" "\<not> SYNC_STATUS ?new"
    by (simp_all add: save_params_def)
  have ids: "map ID (insert_message ?new (messages w)) = map ID (messages w)"
    using assms(2) k(1) by (simp add: map_ID_insert_message)
  have "\<not> SYNC_MESSAGE r \<and> \<not> SYNC_STATUS r
          \<and> r \<in> set (select_unsynced (INSTANCE r) (insert_message ?new (messages w)))"
    if "r \<in> set (insert_message ?new (messages w))" "ID r = pm_ID message" for r
    using flags_insert_message [of r ?new "messages w"] that k
    by (simp add: select_unsynced_def)
  with m ids show ?thesis by simp
qed

theorem saveMessage_existing_clears_sync_flags_witness:
  "db_ok backend_up (Insert (pm_ID (parsed_M1 ''hi'')))
   \<and> pm_ID (parsed_M1 ''hi'') \<in> set (map ID (messages world_settled))
   \<and> map SYNC_MESSAGE (messages world_settled) = [True]
   \<and> map SYNC_STATUS (messages world_settled) = [True]
   \<and> map SYNC_MESSAGE
        (messages (saveMessage example_instance backend_up (parsed_M1 ''hi'') ''5599'' world_settled))
      = [False]
   \<and> map SYNC_STATUS
        (messages (saveMessage example_instance backend_up (parsed_M1 ''hi'') ''5599'' world_settled))
      = [False]"
proof -
  have a: "db_ok backend_up (Insert (pm_ID (parsed_M1 ''hi'')))"
    by (simp add: backend_up_def environment_def)
  have b: "pm_ID (parsed_M1 ''hi'') \<in> set (map ID (messages world_settled))"
    by (simp add: world_settled_def world_M1_def stored_M1_def parsed_M1_def)
  have c: "map ID (messages world_settled) = [''M1'']" "pm_ID (parsed_M1 ''hi'') = ''M1''"
    "map SYNC_MESSAGE (messages world_settled) = [True]"
    "map SYNC_STATUS (messages world_settled) = [True]"
    by (simp_all add: world_settled_def world_M1_def stored_M1_def parsed_M1_def)
  from saveMessage_existing_clears_sync_flags [OF a b, of example_instance "''5599''"] c
  have "\<exists>r. messages (saveMessage example_instance backend_up (parsed_M1 ''hi'') ''5599'' world_settled) = [r]
          \<and> \<not> SYNC_MESSAGE r \<and> \<not> SYNC_STATUS r"
    by (auto simp: map_eq_Cons_conv)
  with a b c show ?thesis by auto
qed

section \<open>updateMessage: fields left out, unknown identifiers\<close>

lemma update_message_columns:
  "map ID (update_message st ss sm mid rows) = map ID rows"
  "st = None \<Longrightarrow> map STATUS (update_message st ss sm mid rows) = map STATUS rows"
  "ss = None \<Longrightarrow> map SYNC_STATUS (update_message st ss sm mid rows) = map SYNC_STATUS rows"
  "sm = None \<Longrightarrow> map SYNC_MESSAGE (update_message st ss sm mid rows) = map SYNC_MESSAGE rows"
  by (simp_all add: update_message_def comp_def cong: map_cong)

lemma messages_updateMessage:
  "messages (updateMessage this e mid u w) =
     (if db_ok e (Update mid)
      then update_message (or_null (upd_STATUS u)) (upd_SYNC_STATUS u) (upd_SYNC_MESSAGE u) mid
             (messages w)
      else messages w)"
  by (simp add: updateMessage_def logWithDate_def)

text \<open>
  C7. After \<open>updateMessage\<close>, each of \<open>STATUS\<close>, \<open>SYNC_STATUS\<close> and \<open>SYNC_MESSAGE\<close> that the
  update object leaves out has, in every row, the value it had before (and the rows are
  the same rows, in the same order); so \<open>updateMessage(id, {STATUS: "READ"})\<close> leaves both
  sync flags as they were.
\<close>

theorem updateMessage_omitted_fields_kept:
  "(upd_STATUS u = None \<longrightarrow>
      map STATUS (messages (updateMessage this e mid u w)) = map STATUS (messages w))
   \<and> (upd_SYNC_STATUS u = None \<longrightarrow>
      map SYNC_STATUS (messages (updateMessage this e mid u w)) = map SYNC_STATUS (messages w))
   \<and> (upd_SYNC_MESSAGE u = None \<longrightarrow>
      map SYNC_MESSAGE (messages (updateMessage this e mid u w)) = map SYNC_MESSAGE (messages w))
   \<and> map ID (messages (updateMessage this e mid u w)) = map ID (messages w)"
  by (simp add: messages_updateMessage update_message_columns)

theorem updateMessage_omitted_fields_kept_witness:
  "upd_SYNC_STATUS status_READ = None \<and> upd_SYNC_MESSAGE status_READ = None
   \<and> map SYNC_STATUS (messages (updateMessage example_instance backend_up ''M1'' status_READ world_M1))
       = [False]
   \<and> map SYNC_MESSAGE (messages (updateMessage example_instance backend_up ''M1'' status_READ world_M1))
       = [True]
   \<and> upd_STATUS status_synced = None
   \<and> map STATUS (messages (updateMessage example_instance backend_up ''M1'' status_synced world_M1))
       = [Some ''READ'']"
  using updateMessage_omitted_fields_kept [of status_READ example_instance backend_up "''M1''" world_M1]
    updateMessage_omitted_fields_kept [of status_synced example_instance backend_up "''M1''" world_M1]
  by (simp add: status_READ_def status_synced_def world_M1_def stored_M1_def)

lemma update_message_unknown:
  "mid \<notin> set (map ID rows) \<Longrightarrow> update_message st ss sm mid rows = rows"
  by (induction rows) (auto simp: update_message_def)

text \<open>
  C8. For an identifier that no row has, \<open>updateMessage\<close> throws nothing, adds no row and
  changes no row: all it does is print one console line (the success line when the
  statement executes, the failure line when the database fails).
\<close>

theorem updateMessage_unknown_id_noop:
  "mid \<notin> set (map ID (messages w)) \<Longrightarrow>
     updateMessage this e mid u w =
       logWithDate (tag this @ (if db_ok e (Update mid)
                                then ''Message updated successfully => '' @ mid
                                else ''Update message failure =>'')) w"
  by (simp add: updateMessage_def update_message_unknown)

theorem updateMessage_unknown_id_noop_witness:
  "''M-missing'' \<notin> set (map ID (messages world_M1))
   \<and> messages (updateMessage example_instance backend_up ''M-missing'' status_synced world_M1) = [stored_M1]
   \<and> requests (updateMessage example_instance backend_up ''M-missing'' status_synced world_M1) = []
   \<and> files (updateMessage example_instance backend_up ''M-missing'' status_synced world_M1) = []"
proof -
  have h: "''M-missing'' \<notin> set (map ID (messages world_M1))"
    by (simp add: world_M1_def stored_M1_def)
  from updateMessage_unknown_id_noop [OF h, of example_instance backend_up status_synced] h
  show ?thesis by (simp add: logWithDate_def world_M1_def)
qed

section \<open>Logs that are never finished\<close>

lemma save_unfinished:
  "finishedAt l = None \<Longrightarrow> save e l w = (l, logWithDate ''log save error:'' w)"
  by (simp add: save_def)

lemma save_finished_writes_file:
  "LOGS_PATH e = Some root \<Longrightarrow> fs_ok e \<Longrightarrow> stringify_ok e \<Longrightarrow>
     files (snd (save e (finish e l) w)) =
       files w @ [path_join e [path_join e [root, ctx_clientName (log_context l),
                      ctx_type (log_context l), ctx_identifier (log_context l)],
                    decimal (now e) @ ''.json'']]"
  by (simp add: save_def finish_def Let_def)

lemma save_finished_stringify_throws:
  "\<not> stringify_ok e \<Longrightarrow> files (snd (save e l w)) = files w"
  by (simp add: save_def logWithDate_def Let_def split: option.splits)

lemma unfinished_logs [simp]:
  "finishedAt (new_Log e name type identifier d) = None"
  "finishedAt (setData cb l) = finishedAt l"
  "finishedAt (setError err l) = finishedAt l"
  by (simp_all add: new_Log_def setData_def setError_def)

lemma files_simps [simp]:
  "files (logWithDate line w) = files w"
  "files (axios req w) = files w"
  "files (updateMessage this e mid u w) = files w"
  by (simp_all add: logWithDate_def axios_def updateMessage_def)

lemma files_saveMessage [simp]: "files (saveMessage this e message from w) = files w"
  by (simp add: saveMessage_def Let_def save_unfinished)

lemma message_failure_unfinished:
  "finishedAt log = None \<Longrightarrow>
     message_failure this e err log w =
       (if err = Nullish
        then (Rejected, logWithDate ''undefined'' (logWithDate ''log save error:'' w))
        else (Resolved, logWithDate (tag this @ ''Message failure =>'')
                          (logWithDate ''undefined'' (logWithDate ''log save error:'' w))))"
  by (simp add: message_failure_def save_unfinished Let_def)

lemma files_onReceiveMessage_task:
  "files (snd (onReceiveMessage_task this e message w)) = files w"
  by (simp add: onReceiveMessage_task_def Let_def message_failure_unfinished
        split: sum.split option.split)

lemma files_onReceiveMessageStatus_task:
  "files (onReceiveMessageStatus_task this e message w) = files w"
  by (simp add: onReceiveMessageStatus_task_def Let_def)

lemma onReceiveMessage_task_no_chat:
  "getChat e message = Inl err \<Longrightarrow>
     onReceiveMessage_task this e message w =
       (if err = Nullish
        then (Rejected, logWithDate ''undefined'' (logWithDate ''log save error:'' w))
        else (Resolved, logWithDate (tag this @ ''Message failure =>'')
                          (logWithDate ''undefined'' (logWithDate ''log save error:'' w))))"
  by (simp add: onReceiveMessage_task_def Let_def message_failure_unfinished)

text \<open>
  A task that throws into the loop: \<open>getChat\<close> rejects with \<open>undefined\<close>, the handler of the
  task throws on \<open>err.response\<close>, and the promise of the task is rejected.
\<close>

lemma onReceiveMessage_task_rejects:
  "fst (onReceiveMessage_task example_instance chat_rejects_undefined ack_M1 world_M1) = Rejected"
  by (simp add: onReceiveMessage_task_no_chat chat_rejects_undefined_def)

lemma decimal_now: "decimal 1700000000000 = ''1700000000000''"
  by (simp add: decimal.simps digit_def)

lemma finished_log_saved_example:
  "files (snd (save backend_up (finish backend_up fresh_log) world_M1))
     = [''/logs/acme/send-file/1700000000000/1700000000000.json'']"
  by (simp add: save_def finish_def fresh_log_def new_Log_def backend_up_def environment_def
        decimal_now world_M1_def Let_def)

text \<open>
  C10. \<open>save\<close> on a log on which \<open>finish\<close> was not called writes no file and throws
  nothing: it only prints the line of its handler. The tasks of \<open>onReceiveMessage\<close> and
  \<open>onReceiveMessageStatus\<close> never call \<open>finish\<close>, so they write no log file on any input;
  for instance when \<open>getChat\<close> throws, the task comes down to console lines, the first
  being the failed \<open>save\<close>: three when an error was caught, and two, with the promise of
  the task rejected, when the value caught is \<open>null\<close> or \<open>undefined\<close>.
\<close>

theorem unfinished_log_never_saved:
  "(finishedAt l = None \<longrightarrow> save e l w = (l, logWithDate ''log save error:'' w))
   \<and> files (snd (onReceiveMessage_task this e message w)) = files w
   \<and> files (onReceiveMessageStatus_task this e message w) = files w
   \<and> (getChat e message = Inl err \<longrightarrow>
        onReceiveMessage_task this e message w =
          (if err = Nullish
           then (Rejected, logWithDate ''undefined'' (logWithDate ''log save error:'' w))
           else (Resolved, logWithDate (tag this @ ''Message failure =>'')
                             (logWithDate ''undefined'' (logWithDate ''log save error:'' w)))))"
  by (simp add: save_unfinished files_onReceiveMessage_task files_onReceiveMessageStatus_task
        onReceiveMessage_task_no_chat)

theorem unfinished_log_never_saved_witness:
  "finishedAt fresh_log = None
   \<and> files (snd (save chat_unavailable fresh_log world_M1)) = []
   \<and> getChat chat_unavailable ack_M1 = Inl (Error ''detached'')
   \<and> console (snd (onReceiveMessage_task example_instance chat_unavailable ack_M1 world_M1))
       = [''log save error:'', ''undefined'', ''[acme - 5511] Message failure =>'']
   \<and> files (snd (onReceiveMessage_task example_instance chat_unavailable ack_M1 world_M1)) = []"
proof -
  have a: "finishedAt fresh_log = None"
    by (simp add: fresh_log_def new_Log_def)
  have b: "getChat chat_unavailable ack_M1 = Inl (Error ''detached'')"
    by (simp add: chat_unavailable_def)
  from unfinished_log_never_saved
         [of fresh_log chat_unavailable world_M1 example_instance ack_M1 "Error ''detached''"]
       a b
  show ?thesis
    by (simp add: logWithDate_def world_M1_def tag_def example_instance_def)
qed

section \<open>Sync flags and the answer of the backend\<close>

lemma onReceiveMessageStatus_task_ignores_answer:
  "onReceiveMessageStatus_task this (e\<lparr>http_ok := h\<rparr>) message w =
     onReceiveMessageStatus_task this e message w"
  by (simp add: onReceiveMessageStatus_task_def updateMessage_def)

lemma status_of_ack_3: "status_of_ack 3 = ''READ''"
  by (simp add: status_of_ack_def js_index_def)

text \<open>
  C1 does not hold of the code. Message M1 is stored with \<open>SYNC_STATUS\<close> false, the
  acknowledgement 3 (READ) arrives, and the backend does not answer the PUT with a 2xx
  status: the task still sets \<open>SYNC_STATUS\<close> to true, and the sweep no longer selects
  the row.
\<close>

theorem status_flag_set_without_acknowledgement:
  "\<not> http_ok backend_down
       \<lparr>req_method = PUT, url = ''http://backend/update_message/M1'',
        body = StatusBody (Some ''READ'')\<rparr>
   \<and> requests (onReceiveMessageStatus_task example_instance backend_down ack_M1 world_M1)
       = [\<lparr>req_method = PUT, url = ''http://backend/update_message/M1'',
           body = StatusBody (Some ''READ'')\<rparr>]
   \<and> map SYNC_STATUS (messages world_M1) = [False]
   \<and> map SYNC_STATUS
        (messages (onReceiveMessageStatus_task example_instance backend_down ack_M1 world_M1))
      = [True]
   \<and> select_unsynced (instance_key example_instance)
        (messages (onReceiveMessageStatus_task example_instance backend_down ack_M1 world_M1))
      = []"
  by (simp add: onReceiveMessageStatus_task_def updateMessage_def update_message_def
        logWithDate_def axios_def status_of_ack_3 Let_def backend_down_def environment_def
        example_instance_def ack_M1_def world_M1_def stored_M1_def select_unsynced_def)

lemma example_facts:
  "getChat backend_down ack_M1 = Inr \<lparr>isGroup = False, chat_user = ''5599''\<rparr>"
  "isMessageFromNow backend_down ack_M1"
  "messageParser backend_down ack_M1 = Inr (Some (parsed_M1 ''hi''))"
  "db_ok backend_down c"
  "\<not> http_ok backend_down req"
  "autoMessages example_instance = []"
  "blockedNumbers example_instance = []"
  "\<not> isStatus ack_M1"
  "msg_type ack_M1 \<notin> set blockedTypes"
  by (simp_all add: backend_down_def environment_def example_instance_def ack_M1_def
        blockedTypes_def)

lemma saved_M1:
  "messages (saveMessage example_instance backend_down (parsed_M1 ''hi'') ''5599'' world_M1)
     = [stored_M1\<lparr>STATUS := Some ''RECEIVED'', SYNC_MESSAGE := False\<rparr>]"
  by (simp add: messages_saveMessage example_facts insert_message_def
        on_duplicate_key_update_def save_params_def world_M1_def stored_M1_def parsed_M1_def)

text \<open>
  The task of \<open>onReceiveMessage\<close> does not read the answer of the POST either: after a
  rejected POST it sets both flags as soon as table \<open>w_mensagens\<close> has a row with the
  identifier.
\<close>

lemma message_flags_set_without_acknowledgement:
  "map SYNC_MESSAGE
     (messages (snd (onReceiveMessage_task example_instance backend_down ack_M1 world_M1)))
       = [True]
   \<and> map SYNC_STATUS
       (messages (snd (onReceiveMessage_task example_instance backend_down ack_M1 world_M1)))
       = [True]"
proof -
  let ?w1 = "saveMessage example_instance backend_down (parsed_M1 ''hi'') ''5599'' world_M1"
  have w: "w_mensagens ?w1 = [''M1'']"
    by (simp add: saveMessage_def example_facts logWithDate_def world_M1_def)
  have p: "pm_ID (parsed_M1 ''hi'') = ''M1''"
    by (simp add: parsed_M1_def)
  have "messages (snd (onReceiveMessage_task example_instance backend_down ack_M1 world_M1)) =
          update_message None (Some True) (Some True) ''M1'' (messages ?w1)"
    by (simp add: onReceiveMessage_task_def Let_def example_facts w p axios_def
          messages_updateMessage logWithDate_def)
  then show ?thesis
    by (simp add: saved_M1 update_message_def stored_M1_def)
qed

section \<open>The sweep\<close>

lemma settled_not_selected:
  "SYNC_MESSAGE r \<Longrightarrow> SYNC_STATUS r \<Longrightarrow> r \<notin> set (select_unsynced k rows)"
  by (simp add: select_unsynced_def)

lemma sync_row_settled: "SYNC_MESSAGE r \<Longrightarrow> SYNC_STATUS r \<Longrightarrow> sync_row this e w r = w"
  by (simp add: sync_row_def)

lemma sync_row_unsent:
  "\<not> SYNC_MESSAGE r \<Longrightarrow>
     http_ok e \<lparr>req_method = POST,
                url = requestURL this @ ''/receive_message/'' @ whatsappNumber this @ ''/'' @ FROM r,
                body = RowBody r\<rparr> \<Longrightarrow>
     sync_row this e w r =
       updateMessage this e (ID r)
         \<lparr>upd_SYNC_STATUS = Some True, upd_SYNC_MESSAGE = Some True, upd_STATUS = None\<rparr>
         (axios \<lparr>req_method = POST,
                 url = requestURL this @ ''/receive_message/'' @ whatsappNumber this @ ''/'' @ FROM r,
                 body = RowBody r\<rparr> w)"
  by (simp add: sync_row_def Let_def)

lemma sync_row_status_only:
  "SYNC_MESSAGE r \<Longrightarrow> \<not> SYNC_STATUS r \<Longrightarrow>
     requests (sync_row this e w r) =
       requests w @ [\<lparr>req_method = PUT, url = requestURL this @ ''/update_message/'' @ FROM r,
                      body = StatusBody (STATUS r)\<rparr>]"
  by (simp add: sync_row_def Let_def updateMessage_def logWithDate_def axios_def
        sync_failure_def save_def new_Log_def setData_def setError_def)

lemma sync_row_status_only_acknowledged:
  "SYNC_MESSAGE r \<Longrightarrow> \<not> SYNC_STATUS r \<Longrightarrow> db_ok e (Update (ID r)) \<Longrightarrow>
     http_ok e \<lparr>req_method = PUT, url = requestURL this @ ''/update_message/'' @ FROM r,
                body = StatusBody (STATUS r)\<rparr> \<Longrightarrow>
     messages (sync_row this e w r) = update_message None (Some True) None (ID r) (messages w)"
  by (simp add: sync_row_def Let_def messages_updateMessage axios_def)

text \<open>
  C4 does not hold of the code. For the row of message M1, received from 5599, with
  \<open>SYNC_MESSAGE\<close> true and \<open>SYNC_STATUS\<close> false, the sweep sends its PUT to
  \<open>/update_message/5599\<close>, the path of the counterparty (\<open>message.FROM\<close>), and not to
  \<open>/update_message/M1\<close>, the path of the message identifier; on the answer it marks the
  status of M1 as synchronised.
\<close>

theorem sweep_status_request_path:
  "ID stored_M1 = ''M1'' \<and> FROM stored_M1 = ''5599''
   \<and> SYNC_MESSAGE stored_M1 \<and> \<not> SYNC_STATUS stored_M1
   \<and> requests (syncMessagesWithServer example_instance backend_up world_M1)
       = [\<lparr>req_method = PUT, url = ''http://backend/update_message/5599'',
           body = StatusBody (Some ''READ'')\<rparr>]
   \<and> map SYNC_STATUS (messages (syncMessagesWithServer example_instance backend_up world_M1))
       = [True]"
proof -
  have row: "ID stored_M1 = ''M1''" "FROM stored_M1 = ''5599''" "SYNC_MESSAGE stored_M1"
    "\<not> SYNC_STATUS stored_M1" "STATUS stored_M1 = Some ''READ''"
    by (simp_all add: stored_M1_def)
  have env: "db_ok backend_up c" "http_ok backend_up req" for c req
    by (simp_all add: backend_up_def environment_def)
  have sel: "select_unsynced (instance_key example_instance) (messages world_M1) = [stored_M1]"
    by (simp add: select_unsynced_def instance_key_def example_instance_def world_M1_def
          stored_M1_def)
  have sweep: "syncMessagesWithServer example_instance backend_up world_M1 =
                 sync_row example_instance backend_up world_M1 stored_M1"
    by (simp add: syncMessagesWithServer_def env sel)
  have req: "requests (sync_row example_instance backend_up world_M1 stored_M1) =
               [\<lparr>req_method = PUT, url = ''http://backend/update_message/5599'',
                 body = StatusBody (Some ''READ'')\<rparr>]"
    using sync_row_status_only [OF row(3) row(4), of example_instance backend_up world_M1]
    by (simp add: row example_instance_def world_M1_def)
  have upd: "messages (sync_row example_instance backend_up world_M1 stored_M1) =
               update_message None (Some True) None ''M1'' [stored_M1]"
    using sync_row_status_only_acknowledged
            [OF row(3) row(4) env(1) env(2), of example_instance world_M1]
    by (simp add: row world_M1_def)
  show ?thesis
    by (simp add: sweep req upd row update_message_def)
qed

end
